theory Spec2Isabelle
  imports Main "HOL-Library.Sublist"
begin

section \<open>Data model\<close>

text \<open>
  The two drivers of \<^verbatim>\<open>MigrateDeploy.ts\<close> (classes \<^verbatim>\<open>MigrateDeploy\<close> and
  \<^verbatim>\<open>MigrateStatus\<close>) consume the result of the engine call
  \<^verbatim>\<open>diagnoseMigrationHistory\<close> and the listing of \<^verbatim>\<open>listMigrationDirectories\<close>.

  Modelled from the spec: the type declarations of \<^verbatim>\<open>DiagnoseResult\<close> are not part of the
  given source. The variants are those of section 3 of the specification. The source
  reads \<^verbatim>\<open>history\<close> and \<^verbatim>\<open>drift\<close> through \<^verbatim>\<open>?.\<close>, so an absent value behaves like the
  variants \<open>InSync\<close> and \<open>NoDrift\<close>, which have no other use in the code. The source reads
  \<^verbatim>\<open>history.unappliedMigrationNames\<close> when the diagnostic is \<^verbatim>\<open>databaseIsBehind\<close> or
  \<^verbatim>\<open>historiesDiverge\<close>, so both variants carry that field.
\<close>

datatype HistoryDiagnostic =
    InSync
  | is_databaseIsBehind: DatabaseIsBehind (unappliedMigrationNames: "string list")
  | is_historiesDiverge: HistoriesDiverge (unappliedMigrationNames: "string list")

datatype DriftReport =
    NoDrift
  | is_driftDetected: DriftDetected (rollback: "string option")

record DiagnoseResult =
  hasMigrationsTable :: bool
  history :: HistoryDiagnostic
  drift :: DriftReport
  failedMigrationNames :: "string list"
  editedMigrationNames :: "string list"

text \<open>
  Modelled from the spec: the class \<^verbatim>\<open>HowToBaselineError\<close> lives in \<^verbatim>\<open>utils/errors\<close>, which is
  not part of the given source; the specification calls this outcome the
  baseline-impossible plan. \<open>CollaboratorError\<close> stands for whatever the engine call
  \<^verbatim>\<open>applyMigrations\<close> rejects with.
\<close>

datatype error =
    HowToBaselineError
  | CollaboratorError string

text \<open>
  What a driver does besides returning: lines written with \<^verbatim>\<open>console.info\<close>, the engine
  call \<^verbatim>\<open>migrate.applyMigrations()\<close> and \<^verbatim>\<open>migrate.stop()\<close>, in the order they happen.
\<close>

datatype event =
    ConsoleInfo string
  | ApplyMigrations
  | MigrateStop

text \<open>
  Functions of other packages that the drivers call on strings: \<^verbatim>\<open>getCommandWithExecutor\<close>
  of \<^verbatim>\<open>@prisma/sdk\<close>, the styles of \<^verbatim>\<open>chalk\<close>, and \<^verbatim>\<open>printFilesFromMigrationIds\<close> of
  \<^verbatim>\<open>utils/printFiles\<close> (always called with the directory \<^verbatim>\<open>'migrations'\<close> and the file map
  \<^verbatim>\<open>{'migration.sql': ''}\<close>). They are parameters of the model.
\<close>

record Env =
  getCommandWithExecutor :: "string \<Rightarrow> string"
  chalk_bold_greenBright :: "string \<Rightarrow> string"
  chalk_greenBright :: "string \<Rightarrow> string"
  chalk_grey :: "string \<Rightarrow> string"
  chalk_yellow :: "string \<Rightarrow> string"
  chalk_plain :: "string \<Rightarrow> string"
  printFilesFromMigrationIds :: "string \<Rightarrow> string list \<Rightarrow> string"

section \<open>JavaScript string operations\<close>

definition nl :: string where
  "nl = [CHR 0x0A]"

definition dq :: string where
  "dq = [CHR 0x22]"

text \<open>\<^verbatim>\<open>Array.prototype.join(sep)\<close> on an array of strings.\<close>

fun Array_join :: "string \<Rightarrow> string list \<Rightarrow> string" where
  "Array_join sep [] = []"
| "Array_join sep [x] = x"
| "Array_join sep (x # y # ys) = x @ sep @ Array_join sep (y # ys)"

text \<open>
  An array interpolated into a template literal is converted with
  \<^verbatim>\<open>Array.prototype.toString\<close>, that is \<^verbatim>\<open>join(',')\<close>.
\<close>

definition Array_toString :: "string list \<Rightarrow> string" where
  "Array_toString xs = Array_join '','' xs"

text \<open>
  \<^verbatim>\<open>chalk\<close> converts its single argument with \<^verbatim>\<open>'' + x\<close>; an absent rollback script
  becomes the text \<^verbatim>\<open>undefined\<close>.
\<close>

fun String_coerce :: "string option \<Rightarrow> string" where
  "String_coerce None = ''undefined''"
| "String_coerce (Some s) = s"

text \<open>Truthiness of an optional string: absent and empty are both falsy.\<close>

fun truthy :: "string option \<Rightarrow> bool" where
  "truthy None = False"
| "truthy (Some s) = (s \<noteq> [])"

text \<open>A number interpolated into a template literal: its decimal digits.\<close>

definition digit :: "nat \<Rightarrow> char" where
  "digit n = ''0123456789'' ! n"

fun Number_toString :: "nat \<Rightarrow> string" where
  "Number_toString n =
     (if n < 10 then [digit n] else Number_toString (n div 10) @ [digit (n mod 10)])"

declare Number_toString.simps [simp del]

text \<open>The recurring \<^verbatim>\<open>xs.length > 1 ? 's' : ''\<close>.\<close>

definition plural :: "'a list \<Rightarrow> string" where
  "plural xs = (if length xs > 1 then ''s'' else [])"

section \<open>The status driver: \<^verbatim>\<open>MigrateStatus.parse\<close>\<close>

text \<open>The suggested commands, as the template literals build them.\<close>

definition migrate_dev_command :: "Env \<Rightarrow> string" where
  "migrate_dev_command env =
     chalk_bold_greenBright env
       (getCommandWithExecutor env ''prisma migrate dev --early-access-feature'')"

definition migrate_deploy_command :: "Env \<Rightarrow> string" where
  "migrate_deploy_command env =
     chalk_bold_greenBright env
       (getCommandWithExecutor env ''prisma migrate deploy --early-access-feature'')"

definition introspect_command :: "Env \<Rightarrow> string" where
  "introspect_command env =
     chalk_bold_greenBright env (getCommandWithExecutor env ''prisma introspect'')"

definition resolve_applied_command :: "Env \<Rightarrow> string \<Rightarrow> string" where
  "resolve_applied_command env migrationId =
     chalk_bold_greenBright env
       (getCommandWithExecutor env
          (''prisma migrate resolve --applied '' @ dq @ migrationId @ dq
             @ '' --early-access-feature''))"

definition resolve_rolledback_command :: "Env \<Rightarrow> string \<Rightarrow> string" where
  "resolve_rolledback_command env migrationId =
     chalk_bold_greenBright env
       (getCommandWithExecutor env
          (''prisma migrate resolve --rolledback '' @ dq @ migrationId @ dq
             @ '' --early-access-feature''))"

text \<open>Lines 304 to 313: how many migrations the directory holds.\<close>

definition status_found_message :: "string list \<Rightarrow> string" where
  "status_found_message migrations =
     (if length migrations > 0
      then Number_toString (length migrations) @ '' migration'' @ plural migrations
             @ '' found in prisma/migrations'' @ nl
      else ''No migration found in prisma/migrations'' @ nl)"

text \<open>Lines 317 to 331: the notice printed when the database is behind.\<close>

definition unapplied_notice :: "Env \<Rightarrow> string list \<Rightarrow> string" where
  "unapplied_notice env unappliedMigrations =
     ''Following migration'' @ plural unappliedMigrations @ '' have not yet been applied:'' @ nl
       @ Array_join nl unappliedMigrations @ nl
       @ nl
       @ ''To apply migrations in development run '' @ migrate_dev_command env @ ''.'' @ nl
       @ ''To apply migrations in production run '' @ migrate_deploy_command env @ ''.''"

text \<open>Lines 348 to 358: the text returned in the baselining case.\<close>

definition baseline_message :: "Env \<Rightarrow> string \<Rightarrow> string" where
  "baseline_message env migrationId =
     ''The current database is not managed by Prisma Migrate.'' @ nl
       @ nl
       @ ''If you want to keep the current database structure and data and create new migrations, baseline this database with the migration ''
       @ dq @ migrationId @ dq @ '':'' @ nl
       @ resolve_applied_command env migrationId @ nl
       @ nl
       @ ''Read more about how to baseline an existing production database:'' @ nl
       @ ''https://pris.ly/d/migrate-baseline''"

text \<open>Lines 368 to 377: the failed migrations, printed before the advice.\<close>

definition failed_notice :: "Env \<Rightarrow> string list \<Rightarrow> string" where
  "failed_notice env failedMigrations =
     ''Following migration'' @ plural failedMigrations @ '' have failed:'' @ nl
       @ Array_join nl failedMigrations @ nl
       @ nl
       @ ''During development if the failed migration(s) have not been deployed to a production database you can then fix the migration(s) and run ''
       @ migrate_dev_command env @ ''.'' @ nl"

text \<open>Lines 383 and 384.\<close>

definition rollback_notice :: "Env \<Rightarrow> string option \<Rightarrow> string" where
  "rollback_notice env script =
     ''Prisma Migrate generated a script to do a manual rollback'' @ nl
       @ chalk_grey env (String_coerce script)"

text \<open>
  Lines 387 to 404: the text returned in the failed-migration case. Its argument is
  \<^verbatim>\<open>failedMigrations[0]\<close>.
\<close>

definition failed_message :: "Env \<Rightarrow> string \<Rightarrow> string" where
  "failed_message env failed0 =
     ''The failed migration(s) can be marked as rolled back or applied:'' @ nl
       @ ''      '' @ nl
       @ ''- If you rolled back the migration(s) manually:'' @ nl
       @ resolve_rolledback_command env failed0 @ nl
       @ nl
       @ ''- If you fixed the database manually (hotfix):'' @ nl
       @ resolve_applied_command env failed0 @ nl
       @ nl
       @ ''Read more about how to resolve migration issues in a production database:'' @ nl
       @ ''https://pris.ly/d/migrate-resolve''"

text \<open>
  Lines 418 to 437: the text returned in the drift case. The source binds the whole
  array \<^verbatim>\<open>history.unappliedMigrationNames\<close> to \<^verbatim>\<open>migrationId\<close> and interpolates it.
\<close>

definition drift_message :: "Env \<Rightarrow> string option \<Rightarrow> string list \<Rightarrow> string" where
  "drift_message env script migrationId =
     ''The current database schema is not in sync with your Prisma schema.'' @ nl
       @ ''This is the script to roll back manually:'' @ nl
       @ chalk_grey env (String_coerce script) @ nl
       @ nl
       @ ''You have 2 options'' @ nl
       @ nl
       @ ''1. To keep the database structure change run: '' @ nl
       @ ''- '' @ introspect_command env @ '' to update your schema with the change.'' @ nl
       @ ''- '' @ migrate_dev_command env @ '' to create a new migration matching the change.'' @ nl
       @ ''      '' @ nl
       @ ''2. You corrected the change in a migration but applied it to the database without using Migrate (hotfix):'' @ nl
       @ ''- '' @ resolve_applied_command env (Array_toString migrationId)
       @ '' to create a new migration matching the drift.''"

definition up_to_date_message :: string where
  "up_to_date_message = ''Database schema is up to date!''"

text \<open>
  Lines 302 to 332: what is printed before the dispatch on the diagnosis.
\<close>

definition status_preamble :: "Env \<Rightarrow> DiagnoseResult \<Rightarrow> string list \<Rightarrow> event list" where
  "status_preamble env diagnoseResult migrations =
     [ConsoleInfo (nl @ ''Status''), ConsoleInfo (status_found_message migrations)]
       @ (if is_databaseIsBehind (history diagnoseResult)
          then [ConsoleInfo
                  (unapplied_notice env (unappliedMigrationNames (history diagnoseResult)))]
          else [])"

text \<open>
  Lines 302 to 441 of \<^verbatim>\<open>MigrateStatus.parse\<close>, from the point where both engine
  results are at hand. The result is the list of events in order and either the error
  thrown or the string returned. \<^verbatim>\<open>migrations.shift()\<close> is the head of a list that the
  guard before it has found non-empty, and likewise \<^verbatim>\<open>failedMigrations[0]\<close>.
\<close>

definition MigrateStatus_parse ::
  "Env \<Rightarrow> DiagnoseResult \<Rightarrow> string list \<Rightarrow> event list \<times> (error + string)" where
  "MigrateStatus_parse env diagnoseResult migrations =
     (let out = status_preamble env diagnoseResult migrations in
      if \<not> hasMigrationsTable diagnoseResult then
        if length migrations = 0 then (out, Inl HowToBaselineError)
        else (out, Inr (baseline_message env (hd migrations)))
      else if length (failedMigrationNames diagnoseResult) > 0 then
        (let failedMigrations = failedMigrationNames diagnoseResult in
         (out @ [ConsoleInfo (failed_notice env failedMigrations)]
              @ (if is_driftDetected (drift diagnoseResult)
                    \<and> truthy (rollback (drift diagnoseResult))
                 then [ConsoleInfo (rollback_notice env (rollback (drift diagnoseResult)))]
                 else []),
          Inr (failed_message env (failedMigrations ! 0))))
      else if is_driftDetected (drift diagnoseResult)
              \<and> (is_databaseIsBehind (history diagnoseResult)
                   \<or> is_historiesDiverge (history diagnoseResult)) then
        (out,
         Inr (drift_message env (rollback (drift diagnoseResult))
                (unappliedMigrationNames (history diagnoseResult))))
      else (out @ [ConsoleInfo []], Inr up_to_date_message))"

section \<open>The deploy driver: \<^verbatim>\<open>MigrateDeploy.parse\<close>\<close>

text \<open>Lines 119 to 128.\<close>

definition deploy_found_message :: "string list \<Rightarrow> string" where
  "deploy_found_message migrations =
     (if length migrations > 0
      then Number_toString (length migrations) @ '' migration'' @ plural migrations
             @ '' found in prisma/migrations''
      else ''No migration found in prisma/migrations'')"

text \<open>Lines 132 to 137: the warning about migrations edited after they were applied.\<close>

definition edited_warning :: "Env \<Rightarrow> string list \<Rightarrow> string" where
  "edited_warning env edited =
     chalk_yellow env
       ''WARNING The following migrations have been modified since they were applied:''
       @ nl
       @ Array_join nl edited"

text \<open>Lines 147 to 159: the text returned once \<^verbatim>\<open>applyMigrations\<close> has answered.\<close>

definition deploy_report :: "Env \<Rightarrow> string list \<Rightarrow> string" where
  "deploy_report env migrationIds =
     (if length migrationIds = 0
      then chalk_greenBright env ''No pending migrations to apply.''
      else ''The following migration'' @ plural migrationIds @ '' have been applied:'' @ nl
             @ nl
             @ chalk_plain env (printFilesFromMigrationIds env ''migrations'' migrationIds) @ nl
             @ ''      '' @ nl
             @ chalk_greenBright env ''All migrations have been successfully applied.'')"

text \<open>
  Lines 118 to 159 of \<^verbatim>\<open>MigrateDeploy.parse\<close>, from the point where both engine results
  are at hand. The parameter \<open>applyMigrations\<close> is the outcome of the one engine call
  \<^verbatim>\<open>migrate.applyMigrations()\<close>: the error it rejects with, or \<^verbatim>\<open>appliedMigrationNames\<close>.
  A rejection leaves \<^verbatim>\<open>parse\<close> at the \<^verbatim>\<open>await\<close>, before \<^verbatim>\<open>migrate.stop()\<close>.
\<close>

definition MigrateDeploy_parse ::
  "Env \<Rightarrow> error + string list \<Rightarrow> DiagnoseResult \<Rightarrow> string list
     \<Rightarrow> event list \<times> (error + string)" where
  "MigrateDeploy_parse env applyMigrations diagnoseResult migrations =
     (let out = [ConsoleInfo [], ConsoleInfo (deploy_found_message migrations)]
                  @ (if length (editedMigrationNames diagnoseResult) > 0
                     then [ConsoleInfo
                             (edited_warning env (editedMigrationNames diagnoseResult))]
                     else [])
                  @ [ApplyMigrations] in
      case applyMigrations of
        Inl e \<Rightarrow> (out, Inl e)
      | Inr migrationIds \<Rightarrow>
          (out @ [MigrateStop, ConsoleInfo []], Inr (deploy_report env migrationIds)))"

section \<open>Chronological order of identifiers\<close>

text \<open>
  The specification takes migration identifiers to sort chronologically as strings
  (section 3, MigrationUnit). \<open>string_less\<close> is that order, character code by character
  code, and \<open>chronologically_earliest\<close> the least identifier of a non-empty list. The
  drivers use neither: both definitions follow the specification's words and serve
  to state what it says about the failed migration that is offered.
\<close>

fun string_less :: "string \<Rightarrow> string \<Rightarrow> bool" where
  "string_less [] [] = False"
| "string_less [] (y # ys) = True"
| "string_less (x # xs) [] = False"
| "string_less (x # xs) (y # ys) =
     ((of_char x :: nat) < of_char y \<or> (x = y \<and> string_less xs ys))"

definition chronologically_earliest :: "string list \<Rightarrow> string" where
  "chronologically_earliest names =
     fold (\<lambda>n acc. if string_less n acc then n else acc) (tl names) (hd names)"

section \<open>Sample inputs\<close>

text \<open>
  An environment without colours, in which commands are run through \<^verbatim>\<open>npx\<close>, and a
  diagnosis of a database that is managed and in step with the local directory.
\<close>

definition plain_env :: Env where
  "plain_env =
     \<lparr> getCommandWithExecutor = (\<lambda>c. ''npx '' @ c),
       chalk_bold_greenBright = (\<lambda>s. s),
       chalk_greenBright = (\<lambda>s. s),
       chalk_grey = (\<lambda>s. s),
       chalk_yellow = (\<lambda>s. s),
       chalk_plain = (\<lambda>s. s),
       printFilesFromMigrationIds = (\<lambda>dir ids. Array_join nl (map (\<lambda>i. dir @ ''/'' @ i) ids)) \<rparr>"

definition clean_diagnosis :: DiagnoseResult where
  "clean_diagnosis =
     \<lparr> hasMigrationsTable = True, history = InSync, drift = NoDrift,
       failedMigrationNames = [], editedMigrationNames = [] \<rparr>"

section \<open>The dispatch of the status driver, branch by branch\<close>

lemma baseline_ne_failed: "baseline_message env m \<noteq> failed_message env f"
  by (simp add: baseline_message_def failed_message_def)

lemma status_result_no_table:
  "\<not> hasMigrationsTable dr \<Longrightarrow>
     snd (MigrateStatus_parse env dr migs) =
       (if migs = [] then Inl HowToBaselineError else Inr (baseline_message env (hd migs)))"
  by (simp add: MigrateStatus_parse_def Let_def)

lemma status_result_failed:
  "hasMigrationsTable dr \<Longrightarrow> failedMigrationNames dr = f # fs \<Longrightarrow>
     snd (MigrateStatus_parse env dr migs) = Inr (failed_message env f)"
  by (simp add: MigrateStatus_parse_def Let_def)

lemma status_result_drift:
  "hasMigrationsTable dr \<Longrightarrow> failedMigrationNames dr = [] \<Longrightarrow>
   is_driftDetected (drift dr) \<Longrightarrow>
   is_databaseIsBehind (history dr) \<or> is_historiesDiverge (history dr) \<Longrightarrow>
     snd (MigrateStatus_parse env dr migs) =
       Inr (drift_message env (rollback (drift dr)) (unappliedMigrationNames (history dr)))"
  by (simp add: MigrateStatus_parse_def Let_def)

lemma status_result_up_to_date:
  "hasMigrationsTable dr \<Longrightarrow> failedMigrationNames dr = [] \<Longrightarrow>
   \<not> (is_driftDetected (drift dr)
       \<and> (is_databaseIsBehind (history dr) \<or> is_historiesDiverge (history dr))) \<Longrightarrow>
     snd (MigrateStatus_parse env dr migs) = Inr up_to_date_message"
  by (auto simp add: MigrateStatus_parse_def Let_def)

text \<open>
  C1. The status driver tries its branches in this order, and the first that matches
  decides what is returned: no migrations table; failed migrations; drift together
  with a history that is behind or has diverged; otherwise up to date. Without a
  migrations table the baselining branch decides, whatever \<open>failedMigrationNames\<close>
  holds, and what it returns is never the advice of the failed-migration branch.
\<close>

theorem status_first_match_wins:
  "(\<not> hasMigrationsTable dr \<longrightarrow>
      snd (MigrateStatus_parse env dr migs) =
        (if migs = [] then Inl HowToBaselineError else Inr (baseline_message env (hd migs))))
   \<and> (hasMigrationsTable dr \<and> failedMigrationNames dr \<noteq> [] \<longrightarrow>
      snd (MigrateStatus_parse env dr migs) =
        Inr (failed_message env (hd (failedMigrationNames dr))))
   \<and> (hasMigrationsTable dr \<and> failedMigrationNames dr = [] \<and> is_driftDetected (drift dr)
        \<and> (is_databaseIsBehind (history dr) \<or> is_historiesDiverge (history dr)) \<longrightarrow>
      snd (MigrateStatus_parse env dr migs) =
        Inr (drift_message env (rollback (drift dr)) (unappliedMigrationNames (history dr))))
   \<and> (hasMigrationsTable dr \<and> failedMigrationNames dr = []
        \<and> \<not> (is_driftDetected (drift dr)
              \<and> (is_databaseIsBehind (history dr) \<or> is_historiesDiverge (history dr))) \<longrightarrow>
      snd (MigrateStatus_parse env dr migs) = Inr up_to_date_message)
   \<and> (\<not> hasMigrationsTable dr \<and> failedMigrationNames dr \<noteq> [] \<longrightarrow>
      snd (MigrateStatus_parse env dr migs)
        \<noteq> Inr (failed_message env (hd (failedMigrationNames dr))))"
proof (intro conjI impI)
  assume "\<not> hasMigrationsTable dr"
  then show "snd (MigrateStatus_parse env dr migs) =
        (if migs = [] then Inl HowToBaselineError else Inr (baseline_message env (hd migs)))"
    by (rule status_result_no_table)
next
  assume a: "hasMigrationsTable dr \<and> failedMigrationNames dr \<noteq> []"
  then obtain f fs where "failedMigrationNames dr = f # fs"
    by (cases "failedMigrationNames dr") auto
  with a show "snd (MigrateStatus_parse env dr migs) =
        Inr (failed_message env (hd (failedMigrationNames dr)))"
    by (simp add: status_result_failed)
next
  assume "hasMigrationsTable dr \<and> failedMigrationNames dr = [] \<and> is_driftDetected (drift dr)
        \<and> (is_databaseIsBehind (history dr) \<or> is_historiesDiverge (history dr))"
  then show "snd (MigrateStatus_parse env dr migs) =
        Inr (drift_message env (rollback (drift dr)) (unappliedMigrationNames (history dr)))"
    by (simp add: status_result_drift)
next
  assume "hasMigrationsTable dr \<and> failedMigrationNames dr = []
        \<and> \<not> (is_driftDetected (drift dr)
              \<and> (is_databaseIsBehind (history dr) \<or> is_historiesDiverge (history dr)))"
  then show "snd (MigrateStatus_parse env dr migs) = Inr up_to_date_message"
    by (intro status_result_up_to_date) auto
next
  assume "\<not> hasMigrationsTable dr \<and> failedMigrationNames dr \<noteq> []"
  then show "snd (MigrateStatus_parse env dr migs)
        \<noteq> Inr (failed_message env (hd (failedMigrationNames dr)))"
    by (simp add: status_result_no_table baseline_ne_failed)
qed

text \<open>
  The four branches of C1 at four diagnoses: no table although a migration has
  failed; a failed migration although drift is detected and the database is behind;
  drift with the database behind; a clean diagnosis.
\<close>

theorem status_first_match_wins_witness:
  "snd (MigrateStatus_parse plain_env
          \<lparr> hasMigrationsTable = False, history = InSync, drift = NoDrift,
            failedMigrationNames = [''20210101000000_a''], editedMigrationNames = [] \<rparr>
          [''20201231000000_init'', ''20210101000000_a''])
     = Inr (baseline_message plain_env ''20201231000000_init'')
   \<and> snd (MigrateStatus_parse plain_env
          \<lparr> hasMigrationsTable = True, history = DatabaseIsBehind [''20210102000000_b''],
            drift = DriftDetected (Some ''DROP TABLE t;''),
            failedMigrationNames = [''20210101000000_a''], editedMigrationNames = [] \<rparr>
          [''20210101000000_a'', ''20210102000000_b''])
     = Inr (failed_message plain_env ''20210101000000_a'')
   \<and> snd (MigrateStatus_parse plain_env
          \<lparr> hasMigrationsTable = True, history = DatabaseIsBehind [''20210102000000_b''],
            drift = DriftDetected (Some ''DROP TABLE t;''),
            failedMigrationNames = [], editedMigrationNames = [] \<rparr>
          [''20210101000000_a'', ''20210102000000_b''])
     = Inr (drift_message plain_env (Some ''DROP TABLE t;'') [''20210102000000_b''])
   \<and> snd (MigrateStatus_parse plain_env clean_diagnosis [''20210101000000_a''])
     = Inr up_to_date_message"
proof -
  let ?d1 = "\<lparr> hasMigrationsTable = False, history = InSync, drift = NoDrift,
            failedMigrationNames = [''20210101000000_a''], editedMigrationNames = [] \<rparr>"
  let ?d2 = "\<lparr> hasMigrationsTable = True, history = DatabaseIsBehind [''20210102000000_b''],
            drift = DriftDetected (Some ''DROP TABLE t;''),
            failedMigrationNames = [''20210101000000_a''], editedMigrationNames = [] \<rparr>"
  let ?d3 = "\<lparr> hasMigrationsTable = True, history = DatabaseIsBehind [''20210102000000_b''],
            drift = DriftDetected (Some ''DROP TABLE t;''),
            failedMigrationNames = [], editedMigrationNames = [] \<rparr>"
  have h1: "\<not> hasMigrationsTable ?d1" by simp
  have h2: "hasMigrationsTable ?d2 \<and> failedMigrationNames ?d2 \<noteq> []" by simp
  have h3: "hasMigrationsTable ?d3 \<and> failedMigrationNames ?d3 = [] \<and> is_driftDetected (drift ?d3)
        \<and> (is_databaseIsBehind (history ?d3) \<or> is_historiesDiverge (history ?d3))" by simp
  have h4: "hasMigrationsTable clean_diagnosis \<and> failedMigrationNames clean_diagnosis = []
        \<and> \<not> (is_driftDetected (drift clean_diagnosis)
              \<and> (is_databaseIsBehind (history clean_diagnosis)
                   \<or> is_historiesDiverge (history clean_diagnosis)))"
    by (simp add: clean_diagnosis_def)
  note w1 = status_first_match_wins
              [where dr = ?d1 and env = plain_env
                 and migs = "[''20201231000000_init'', ''20210101000000_a'']"]
  note w2 = status_first_match_wins
              [where dr = ?d2 and env = plain_env
                 and migs = "[''20210101000000_a'', ''20210102000000_b'']"]
  note w3 = status_first_match_wins
              [where dr = ?d3 and env = plain_env
                 and migs = "[''20210101000000_a'', ''20210102000000_b'']"]
  note w4 = status_first_match_wins
              [where dr = clean_diagnosis and env = plain_env
                 and migs = "[''20210101000000_a'']"]
  from w1 h1 have r1: "snd (MigrateStatus_parse plain_env ?d1
          [''20201231000000_init'', ''20210101000000_a''])
     = Inr (baseline_message plain_env ''20201231000000_init'')" by simp
  from w2 h2 have r2: "snd (MigrateStatus_parse plain_env ?d2
          [''20210101000000_a'', ''20210102000000_b''])
     = Inr (failed_message plain_env ''20210101000000_a'')" by simp
  from w3 h3 have r3: "snd (MigrateStatus_parse plain_env ?d3
          [''20210101000000_a'', ''20210102000000_b''])
     = Inr (drift_message plain_env (Some ''DROP TABLE t;'') [''20210102000000_b''])" by simp
  from w4 h4 have r4: "snd (MigrateStatus_parse plain_env clean_diagnosis [''20210101000000_a''])
     = Inr up_to_date_message" by blast
  from r1 r2 r3 r4 show ?thesis by blast
qed

section \<open>Which failed migration is offered\<close>

lemma fold_keeps_least:
  "\<forall>y\<in>set ys. \<not> string_less y a \<Longrightarrow>
     fold (\<lambda>n acc. if string_less n acc then n else acc) ys a = a"
  by (induction ys) simp_all

lemma failed_message_text:
  "failed_message env f =
     ''The failed migration(s) can be marked as rolled back or applied:\<newline>      \<newline>- If you rolled back the migration(s) manually:\<newline>''
       @ chalk_bold_greenBright env
           (getCommandWithExecutor env
              (''prisma migrate resolve --rolledback '' @ [CHR 0x22] @ f @ [CHR 0x22]
                 @ '' --early-access-feature''))
       @ ''\<newline>\<newline>- If you fixed the database manually (hotfix):\<newline>''
       @ chalk_bold_greenBright env
           (getCommandWithExecutor env
              (''prisma migrate resolve --applied '' @ [CHR 0x22] @ f @ [CHR 0x22]
                 @ '' --early-access-feature''))
       @ ''\<newline>\<newline>Read more about how to resolve migration issues in a production database:\<newline>https://pris.ly/d/migrate-resolve''"
  by (simp add: failed_message_def resolve_rolledback_command_def resolve_applied_command_def
        nl_def dq_def)

text \<open>
  C2, as the specification states it, fails: the driver names \<^verbatim>\<open>failedMigrations[0]\<close>, the
  first entry of the list as it was passed in. With the later migration listed first,
  the chronologically earliest entry is \<^verbatim>\<open>20210101000000_a\<close>, and the advice names
  \<^verbatim>\<open>20210102000000_b\<close>.
\<close>

theorem failed_advice_earliest_counterexample:
  "chronologically_earliest [''20210102000000_b'', ''20210101000000_a''] = ''20210101000000_a''
   \<and> snd (MigrateStatus_parse plain_env
          \<lparr> hasMigrationsTable = True, history = InSync, drift = NoDrift,
            failedMigrationNames = [''20210102000000_b'', ''20210101000000_a''],
            editedMigrationNames = [] \<rparr> [''20210101000000_a'', ''20210102000000_b''])
       = Inr (failed_message plain_env ''20210102000000_b'')
   \<and> failed_message plain_env ''20210102000000_b''
       \<noteq> failed_message plain_env ''20210101000000_a''
   \<and> failed_message plain_env ''20210102000000_b''
       = ''The failed migration(s) can be marked as rolled back or applied:\<newline>      \<newline>- If you rolled back the migration(s) manually:\<newline>npx prisma migrate resolve --rolledback ''
           @ [CHR 0x22] @ ''20210102000000_b'' @ [CHR 0x22]
           @ '' --early-access-feature\<newline>\<newline>- If you fixed the database manually (hotfix):\<newline>npx prisma migrate resolve --applied ''
           @ [CHR 0x22] @ ''20210102000000_b'' @ [CHR 0x22]
           @ '' --early-access-feature\<newline>\<newline>Read more about how to resolve migration issues in a production database:\<newline>https://pris.ly/d/migrate-resolve''"
  by (simp add: chronologically_earliest_def status_result_failed failed_message_def
        resolve_rolledback_command_def resolve_applied_command_def plain_env_def
        nl_def dq_def)

text \<open>
  C2, amended. With a migrations table and a non-empty \<open>failedMigrationNames\<close>, the
  returned advice names the first entry of the list as passed in, between double
  quotes, in the \<^verbatim>\<open>resolve --rolledback\<close> command and in the \<^verbatim>\<open>resolve --applied\<close> command
  alike, and names no other entry. That entry is the chronologically earliest one when
  no later entry of the list sorts before it.
\<close>

theorem failed_advice_names_first_listed:
  "hasMigrationsTable dr \<Longrightarrow> failedMigrationNames dr = f # fs \<Longrightarrow>
     snd (MigrateStatus_parse env dr migs) =
       Inr (''The failed migration(s) can be marked as rolled back or applied:\<newline>      \<newline>- If you rolled back the migration(s) manually:\<newline>''
            @ chalk_bold_greenBright env
                (getCommandWithExecutor env
                   (''prisma migrate resolve --rolledback '' @ [CHR 0x22] @ f @ [CHR 0x22]
                      @ '' --early-access-feature''))
            @ ''\<newline>\<newline>- If you fixed the database manually (hotfix):\<newline>''
            @ chalk_bold_greenBright env
                (getCommandWithExecutor env
                   (''prisma migrate resolve --applied '' @ [CHR 0x22] @ f @ [CHR 0x22]
                      @ '' --early-access-feature''))
            @ ''\<newline>\<newline>Read more about how to resolve migration issues in a production database:\<newline>https://pris.ly/d/migrate-resolve'')
     \<and> ((\<forall>y\<in>set fs. \<not> string_less y f) \<longrightarrow> chronologically_earliest (f # fs) = f)"
proof (intro conjI impI)
  assume "hasMigrationsTable dr" and "failedMigrationNames dr = f # fs"
  then have "snd (MigrateStatus_parse env dr migs) = Inr (failed_message env f)"
    by (rule status_result_failed)
  then show "snd (MigrateStatus_parse env dr migs) =
       Inr (''The failed migration(s) can be marked as rolled back or applied:\<newline>      \<newline>- If you rolled back the migration(s) manually:\<newline>''
            @ chalk_bold_greenBright env
                (getCommandWithExecutor env
                   (''prisma migrate resolve --rolledback '' @ [CHR 0x22] @ f @ [CHR 0x22]
                      @ '' --early-access-feature''))
            @ ''\<newline>\<newline>- If you fixed the database manually (hotfix):\<newline>''
            @ chalk_bold_greenBright env
                (getCommandWithExecutor env
                   (''prisma migrate resolve --applied '' @ [CHR 0x22] @ f @ [CHR 0x22]
                      @ '' --early-access-feature''))
            @ ''\<newline>\<newline>Read more about how to resolve migration issues in a production database:\<newline>https://pris.ly/d/migrate-resolve'')"
    by (simp only: failed_message_text)
next
  assume "\<forall>y\<in>set fs. \<not> string_less y f"
  then show "chronologically_earliest (f # fs) = f"
    by (simp add: chronologically_earliest_def fold_keeps_least)
qed

text \<open>
  The amended C2 at a list in chronological order: both commands name
  \<^verbatim>\<open>20210101000000_a\<close>, the first and earliest entry.
\<close>

theorem failed_advice_names_first_listed_witness:
  "snd (MigrateStatus_parse plain_env
          \<lparr> hasMigrationsTable = True, history = InSync, drift = NoDrift,
            failedMigrationNames = [''20210101000000_a'', ''20210102000000_b''],
            editedMigrationNames = [] \<rparr> [''20210101000000_a'', ''20210102000000_b''])
     = Inr (''The failed migration(s) can be marked as rolled back or applied:\<newline>      \<newline>- If you rolled back the migration(s) manually:\<newline>npx prisma migrate resolve --rolledback ''
            @ [CHR 0x22] @ ''20210101000000_a'' @ [CHR 0x22]
            @ '' --early-access-feature\<newline>\<newline>- If you fixed the database manually (hotfix):\<newline>npx prisma migrate resolve --applied ''
            @ [CHR 0x22] @ ''20210101000000_a'' @ [CHR 0x22]
            @ '' --early-access-feature\<newline>\<newline>Read more about how to resolve migration issues in a production database:\<newline>https://pris.ly/d/migrate-resolve'')
   \<and> chronologically_earliest [''20210101000000_a'', ''20210102000000_b'']
       = ''20210101000000_a''"
proof -
  let ?dr = "\<lparr> hasMigrationsTable = True, history = InSync, drift = NoDrift,
            failedMigrationNames = [''20210101000000_a'', ''20210102000000_b''],
            editedMigrationNames = [] \<rparr>"
  have t: "hasMigrationsTable ?dr" by simp
  have f: "failedMigrationNames ?dr = ''20210101000000_a'' # [''20210102000000_b'']" by simp
  have s: "\<forall>y\<in>set [''20210102000000_b'']. \<not> string_less y ''20210101000000_a''" by simp
  note w = failed_advice_names_first_listed
             [OF t f, of plain_env "[''20210101000000_a'', ''20210102000000_b'']"]
  have 1: "snd (MigrateStatus_parse plain_env ?dr [''20210101000000_a'', ''20210102000000_b''])
     = Inr (''The failed migration(s) can be marked as rolled back or applied:\<newline>      \<newline>- If you rolled back the migration(s) manually:\<newline>npx prisma migrate resolve --rolledback ''
            @ [CHR 0x22] @ ''20210101000000_a'' @ [CHR 0x22]
            @ '' --early-access-feature\<newline>\<newline>- If you fixed the database manually (hotfix):\<newline>npx prisma migrate resolve --applied ''
            @ [CHR 0x22] @ ''20210101000000_a'' @ [CHR 0x22]
            @ '' --early-access-feature\<newline>\<newline>Read more about how to resolve migration issues in a production database:\<newline>https://pris.ly/d/migrate-resolve'')"
    using w [THEN conjunct1] by (simp add: plain_env_def)
  have 2: "chronologically_earliest [''20210101000000_a'', ''20210102000000_b'']
       = ''20210101000000_a''"
    using w [THEN conjunct2] s by blast
  from 1 2 show ?thesis by (rule conjI)
qed

section \<open>Baselining: no migrations table\<close>

lemma baseline_message_text:
  "baseline_message env m =
     ''The current database is not managed by Prisma Migrate.\<newline>\<newline>If you want to keep the current database structure and data and create new migrations, baseline this database with the migration ''
       @ [CHR 0x22] @ m @ [CHR 0x22] @ '':\<newline>''
       @ chalk_bold_greenBright env
           (getCommandWithExecutor env
              (''prisma migrate resolve --applied '' @ [CHR 0x22] @ m @ [CHR 0x22]
                 @ '' --early-access-feature''))
       @ ''\<newline>\<newline>Read more about how to baseline an existing production database:\<newline>https://pris.ly/d/migrate-baseline''"
  by (simp add: baseline_message_def resolve_applied_command_def nl_def dq_def)

text \<open>
  C3. Without a migrations table and with at least one local migration, the status
  driver returns the baselining text, which names the first entry of the directory
  listing, the oldest local migration, and proposes for it, between double quotes, the
  command \<^verbatim>\<open>prisma migrate resolve --applied\<close>; no other migration is named.
\<close>

theorem baseline_names_oldest_local_migration:
  "\<not> hasMigrationsTable dr \<Longrightarrow> migs = oldest # later \<Longrightarrow>
     snd (MigrateStatus_parse env dr migs) =
       Inr (''The current database is not managed by Prisma Migrate.\<newline>\<newline>If you want to keep the current database structure and data and create new migrations, baseline this database with the migration ''
            @ [CHR 0x22] @ oldest @ [CHR 0x22] @ '':\<newline>''
            @ chalk_bold_greenBright env
                (getCommandWithExecutor env
                   (''prisma migrate resolve --applied '' @ [CHR 0x22] @ oldest @ [CHR 0x22]
                      @ '' --early-access-feature''))
            @ ''\<newline>\<newline>Read more about how to baseline an existing production database:\<newline>https://pris.ly/d/migrate-baseline'')"
proof -
  assume "\<not> hasMigrationsTable dr" and "migs = oldest # later"
  then have "snd (MigrateStatus_parse env dr migs) = Inr (baseline_message env oldest)"
    by (simp add: status_result_no_table)
  then show ?thesis
    by (simp only: baseline_message_text)
qed

text \<open>
  C3 at the listing \<^verbatim>\<open>[20201231000000_x, 20210101000000_y]\<close>: the command names
  \<^verbatim>\<open>20201231000000_x\<close>.
\<close>

theorem baseline_names_oldest_local_migration_witness:
  "snd (MigrateStatus_parse plain_env
          \<lparr> hasMigrationsTable = False, history = InSync, drift = NoDrift,
            failedMigrationNames = [], editedMigrationNames = [] \<rparr>
          [''20201231000000_x'', ''20210101000000_y''])
     = Inr (''The current database is not managed by Prisma Migrate.\<newline>\<newline>If you want to keep the current database structure and data and create new migrations, baseline this database with the migration ''
            @ [CHR 0x22] @ ''20201231000000_x'' @ [CHR 0x22]
            @ '':\<newline>npx prisma migrate resolve --applied ''
            @ [CHR 0x22] @ ''20201231000000_x'' @ [CHR 0x22]
            @ '' --early-access-feature\<newline>\<newline>Read more about how to baseline an existing production database:\<newline>https://pris.ly/d/migrate-baseline'')"
proof -
  let ?dr = "\<lparr> hasMigrationsTable = False, history = InSync, drift = NoDrift,
            failedMigrationNames = [], editedMigrationNames = [] \<rparr>"
  have t: "\<not> hasMigrationsTable ?dr" by simp
  have m: "[''20201231000000_x'', ''20210101000000_y'']
             = ''20201231000000_x'' # [''20210101000000_y'']" by simp
  from baseline_names_oldest_local_migration [OF t m, of plain_env]
  show ?thesis by (simp add: plain_env_def)
qed

lemma Array_join_then_sep:
  "Array_join sep xs @ sep @ rest =
     (if xs = [] then sep else concat (map (\<lambda>n. n @ sep) xs)) @ rest"
  by (induction sep xs rule: Array_join.induct) simp_all

lemma unapplied_notice_text:
  "unapplied_notice env u =
     ''Following migration'' @ (if length u > 1 then ''s'' else [])
       @ '' have not yet been applied:\<newline>''
       @ (if u = [] then ''\<newline>'' else concat (map (\<lambda>n. n @ ''\<newline>'') u))
       @ ''\<newline>To apply migrations in development run ''
       @ chalk_bold_greenBright env
           (getCommandWithExecutor env ''prisma migrate dev --early-access-feature'')
       @ ''.\<newline>To apply migrations in production run ''
       @ chalk_bold_greenBright env
           (getCommandWithExecutor env ''prisma migrate deploy --early-access-feature'')
       @ ''.''"
proof -
  have "unapplied_notice env u =
     ''Following migration'' @ plural u @ '' have not yet been applied:'' @ nl
       @ (if u = [] then nl else concat (map (\<lambda>n. n @ nl) u))
       @ nl
       @ ''To apply migrations in development run '' @ migrate_dev_command env @ ''.'' @ nl
       @ ''To apply migrations in production run '' @ migrate_deploy_command env @ ''.''"
    by (simp only: unapplied_notice_def Array_join_then_sep)
  also have "\<dots> =
     ''Following migration'' @ (if length u > 1 then ''s'' else [])
       @ '' have not yet been applied:\<newline>''
       @ (if u = [] then ''\<newline>'' else concat (map (\<lambda>n. n @ ''\<newline>'') u))
       @ ''\<newline>To apply migrations in development run ''
       @ chalk_bold_greenBright env
           (getCommandWithExecutor env ''prisma migrate dev --early-access-feature'')
       @ ''.\<newline>To apply migrations in production run ''
       @ chalk_bold_greenBright env
           (getCommandWithExecutor env ''prisma migrate deploy --early-access-feature'')
       @ ''.''"
    by (cases "u = []")
       (simp_all add: plural_def migrate_dev_command_def migrate_deploy_command_def nl_def)
  finally show ?thesis .
qed

text \<open>
  C4, as the specification states it, fails: without a migrations table and with an
  empty local directory the status driver returns no plan. It throws
  \<open>HowToBaselineError\<close>, and the two lines it has printed by then, the status heading and
  the line that no migration was found, instruct nothing.
\<close>

theorem baseline_impossible_throws_counterexample:
  "MigrateStatus_parse plain_env
     \<lparr> hasMigrationsTable = False, history = InSync, drift = NoDrift,
       failedMigrationNames = [], editedMigrationNames = [] \<rparr> []
     = ([ConsoleInfo ''\<newline>Status'',
         ConsoleInfo ''No migration found in prisma/migrations\<newline>''],
        Inl HowToBaselineError)"
  by (simp add: MigrateStatus_parse_def Let_def status_preamble_def status_found_message_def
        nl_def)

text \<open>
  C4, amended. Without a migrations table and with an empty local directory, the status
  driver throws \<open>HowToBaselineError\<close> and returns nothing. All it prints is the status
  heading, the line that no migration was found and, when the database is behind, the
  notice that lists the unapplied migrations and suggests \<^verbatim>\<open>prisma migrate dev\<close> and
  \<^verbatim>\<open>prisma migrate deploy\<close>: the driver itself suggests no \<^verbatim>\<open>resolve\<close> command and no
  re-introspection.
\<close>

theorem baseline_impossible_without_local_migrations:
  "\<not> hasMigrationsTable dr \<Longrightarrow>
     MigrateStatus_parse env dr [] =
       ([ConsoleInfo ''\<newline>Status'',
         ConsoleInfo ''No migration found in prisma/migrations\<newline>'']
          @ (if is_databaseIsBehind (history dr)
             then [ConsoleInfo
                     (''Following migration''
                        @ (if length (unappliedMigrationNames (history dr)) > 1
                           then ''s'' else [])
                        @ '' have not yet been applied:\<newline>''
                        @ (if unappliedMigrationNames (history dr) = [] then ''\<newline>''
                           else concat (map (\<lambda>n. n @ ''\<newline>'')
                                          (unappliedMigrationNames (history dr))))
                        @ ''\<newline>To apply migrations in development run ''
                        @ chalk_bold_greenBright env
                            (getCommandWithExecutor env
                               ''prisma migrate dev --early-access-feature'')
                        @ ''.\<newline>To apply migrations in production run ''
                        @ chalk_bold_greenBright env
                            (getCommandWithExecutor env
                               ''prisma migrate deploy --early-access-feature'')
                        @ ''.'')]
             else []),
        Inl HowToBaselineError)"
proof -
  assume "\<not> hasMigrationsTable dr"
  then have "MigrateStatus_parse env dr [] =
       ([ConsoleInfo (nl @ ''Status''),
         ConsoleInfo (''No migration found in prisma/migrations'' @ nl)]
          @ (if is_databaseIsBehind (history dr)
             then [ConsoleInfo (unapplied_notice env (unappliedMigrationNames (history dr)))]
             else []),
        Inl HowToBaselineError)"
    by (simp add: MigrateStatus_parse_def Let_def status_preamble_def status_found_message_def)
  then show ?thesis
    by (simp add: unapplied_notice_text nl_def)
qed

text \<open>
  The amended C4 at a database that reports nothing else, and at one that is behind by
  two migrations.
\<close>

theorem baseline_impossible_without_local_migrations_witness:
  "MigrateStatus_parse plain_env
     \<lparr> hasMigrationsTable = False, history = InSync, drift = NoDrift,
       failedMigrationNames = [], editedMigrationNames = [] \<rparr> []
     = ([ConsoleInfo ''\<newline>Status'',
         ConsoleInfo ''No migration found in prisma/migrations\<newline>''],
        Inl HowToBaselineError)
   \<and> MigrateStatus_parse plain_env
     \<lparr> hasMigrationsTable = False,
       history = DatabaseIsBehind [''20210101000000_a'', ''20210102000000_b''],
       drift = NoDrift, failedMigrationNames = [], editedMigrationNames = [] \<rparr> []
     = ([ConsoleInfo ''\<newline>Status'',
         ConsoleInfo ''No migration found in prisma/migrations\<newline>'',
         ConsoleInfo
           ''Following migrations have not yet been applied:\<newline>20210101000000_a\<newline>20210102000000_b\<newline>\<newline>To apply migrations in development run npx prisma migrate dev --early-access-feature.\<newline>To apply migrations in production run npx prisma migrate deploy --early-access-feature.''],
        Inl HowToBaselineError)"
proof -
  let ?d1 = "\<lparr> hasMigrationsTable = False, history = InSync, drift = NoDrift,
            failedMigrationNames = [], editedMigrationNames = [] \<rparr>"
  let ?d2 = "\<lparr> hasMigrationsTable = False,
       history = DatabaseIsBehind [''20210101000000_a'', ''20210102000000_b''],
       drift = NoDrift, failedMigrationNames = [], editedMigrationNames = [] \<rparr>"
  have t1: "\<not> hasMigrationsTable ?d1" by simp
  have t2: "\<not> hasMigrationsTable ?d2" by simp
  have 1: "MigrateStatus_parse plain_env ?d1 []
     = ([ConsoleInfo ''\<newline>Status'',
         ConsoleInfo ''No migration found in prisma/migrations\<newline>''],
        Inl HowToBaselineError)"
    using baseline_impossible_without_local_migrations [OF t1, of plain_env] by simp
  have 2: "MigrateStatus_parse plain_env ?d2 []
     = ([ConsoleInfo ''\<newline>Status'',
         ConsoleInfo ''No migration found in prisma/migrations\<newline>'',
         ConsoleInfo
           ''Following migrations have not yet been applied:\<newline>20210101000000_a\<newline>20210102000000_b\<newline>\<newline>To apply migrations in development run npx prisma migrate dev --early-access-feature.\<newline>To apply migrations in production run npx prisma migrate deploy --early-access-feature.''],
        Inl HowToBaselineError)"
    using baseline_impossible_without_local_migrations [OF t2, of plain_env]
    by (simp add: plain_env_def)
  from 1 2 show ?thesis by (rule conjI)
qed

section \<open>Drift with unapplied migrations\<close>

lemma Array_toString_single: "Array_toString [m] = m"
  by (simp add: Array_toString_def)

text \<open>
  C5. The drift branch interpolates the whole array \<open>unappliedMigrationNames\<close> into the
  \<^verbatim>\<open>resolve --applied\<close> command. With one unapplied migration the command names it
  (\<open>Array_toString_single\<close>); with two, here \<^verbatim>\<open>20201231000000_first\<close> and
  \<^verbatim>\<open>20210101000000_second\<close>, the command names both, joined by a comma, and not the
  first alone.
\<close>

theorem drift_advice_interpolates_whole_list:
  "snd (MigrateStatus_parse plain_env
          \<lparr> hasMigrationsTable = True,
            history = DatabaseIsBehind [''20201231000000_first'', ''20210101000000_second''],
            drift = DriftDetected (Some ''DROP TABLE t;''),
            failedMigrationNames = [], editedMigrationNames = [] \<rparr>
          [''20201231000000_first'', ''20210101000000_second''])
     = Inr (drift_message plain_env (Some ''DROP TABLE t;'')
              [''20201231000000_first'', ''20210101000000_second''])
   \<and> suffix (''- npx prisma migrate resolve --applied '' @ dq
               @ ''20201231000000_first,20210101000000_second'' @ dq
               @ '' --early-access-feature to create a new migration matching the drift.'')
        (drift_message plain_env (Some ''DROP TABLE t;'')
           [''20201231000000_first'', ''20210101000000_second''])
   \<and> resolve_applied_command plain_env
         (Array_toString [''20201231000000_first'', ''20210101000000_second''])
       \<noteq> resolve_applied_command plain_env ''20201231000000_first''"
proof (intro conjI)
  show "snd (MigrateStatus_parse plain_env
          \<lparr> hasMigrationsTable = True,
            history = DatabaseIsBehind [''20201231000000_first'', ''20210101000000_second''],
            drift = DriftDetected (Some ''DROP TABLE t;''),
            failedMigrationNames = [], editedMigrationNames = [] \<rparr>
          [''20201231000000_first'', ''20210101000000_second''])
     = Inr (drift_message plain_env (Some ''DROP TABLE t;'')
              [''20201231000000_first'', ''20210101000000_second''])"
    by (simp add: status_result_drift)
next
  have "resolve_applied_command plain_env
          (Array_toString [''20201231000000_first'', ''20210101000000_second''])
        = ''npx prisma migrate resolve --applied '' @ dq
               @ ''20201231000000_first,20210101000000_second'' @ dq
               @ '' --early-access-feature''"
    by (simp add: resolve_applied_command_def plain_env_def Array_toString_def)
  then show "suffix (''- npx prisma migrate resolve --applied '' @ dq
               @ ''20201231000000_first,20210101000000_second'' @ dq
               @ '' --early-access-feature to create a new migration matching the drift.'')
        (drift_message plain_env (Some ''DROP TABLE t;'')
           [''20201231000000_first'', ''20210101000000_second''])"
    unfolding drift_message_def suffix_def by simp
next
  show "resolve_applied_command plain_env
         (Array_toString [''20201231000000_first'', ''20210101000000_second''])
       \<noteq> resolve_applied_command plain_env ''20201231000000_first''"
    by (simp add: resolve_applied_command_def plain_env_def Array_toString_def)
qed

section \<open>Up to date\<close>

lemma Number_toString_small:
  "Number_toString (Suc 0) = ''1''" "Number_toString (Suc (Suc 0)) = ''2''"
  by (simp_all add: Number_toString.simps digit_def)

lemma deploy_result:
  "snd (MigrateDeploy_parse env applyMigrations dr migs) =
     (case applyMigrations of Inl e \<Rightarrow> Inl e | Inr ids \<Rightarrow> Inr (deploy_report env ids))"
  by (simp add: MigrateDeploy_parse_def Let_def split: sum.splits)

lemma deploy_events:
  "fst (MigrateDeploy_parse env applyMigrations dr migs) =
     [ConsoleInfo [], ConsoleInfo (deploy_found_message migs)]
       @ (if editedMigrationNames dr \<noteq> []
          then [ConsoleInfo (edited_warning env (editedMigrationNames dr))] else [])
       @ [ApplyMigrations]
       @ (case applyMigrations of Inl e \<Rightarrow> [] | Inr ids \<Rightarrow> [MigrateStop, ConsoleInfo []])"
  by (simp add: MigrateDeploy_parse_def Let_def split: sum.splits)

text \<open>
  C6, as the specification states it, fails: a history that is in sync and the absence
  of drift do not by themselves lead to the report that the schema is up to date. With
  a failed migration recorded, the failed-migration branch is taken first.
\<close>

theorem in_sync_failed_not_up_to_date_counterexample:
  "snd (MigrateStatus_parse plain_env
          \<lparr> hasMigrationsTable = True, history = InSync, drift = NoDrift,
            failedMigrationNames = [''20210101000000_a''], editedMigrationNames = [] \<rparr>
          [''20210101000000_a''])
     = Inr (failed_message plain_env ''20210101000000_a'')
   \<and> failed_message plain_env ''20210101000000_a'' \<noteq> up_to_date_message"
  by (simp add: status_result_failed failed_message_def up_to_date_message_def)

text \<open>
  C6, amended. With a migrations table, no failed migration, a history in sync and no
  drift, the status driver prints the heading, the count and an empty line and returns
  that the schema is up to date; and the deploy driver reports an empty
  \<^verbatim>\<open>appliedMigrationNames\<close> as \<^verbatim>\<open>No pending migrations to apply.\<close>, not as an error.
\<close>

theorem in_sync_reports_up_to_date:
  "hasMigrationsTable dr \<Longrightarrow> failedMigrationNames dr = [] \<Longrightarrow>
   history dr = InSync \<Longrightarrow> drift dr = NoDrift \<Longrightarrow>
     MigrateStatus_parse env dr migs =
       ([ConsoleInfo (nl @ ''Status''), ConsoleInfo (status_found_message migs), ConsoleInfo []],
        Inr ''Database schema is up to date!'')
     \<and> snd (MigrateDeploy_parse env (Inr []) dr migs) =
         Inr (chalk_greenBright env ''No pending migrations to apply.'')"
  by (simp add: MigrateStatus_parse_def Let_def status_preamble_def up_to_date_message_def
        deploy_result deploy_report_def)

theorem in_sync_reports_up_to_date_witness:
  "MigrateStatus_parse plain_env
     \<lparr> hasMigrationsTable = True, history = InSync, drift = NoDrift,
       failedMigrationNames = [], editedMigrationNames = [] \<rparr> [''20210101000000_a'']
     = ([ConsoleInfo (nl @ ''Status''),
         ConsoleInfo (''1 migration found in prisma/migrations'' @ nl), ConsoleInfo []],
        Inr ''Database schema is up to date!'')
   \<and> snd (MigrateDeploy_parse plain_env (Inr [])
          \<lparr> hasMigrationsTable = True, history = InSync, drift = NoDrift,
            failedMigrationNames = [], editedMigrationNames = [] \<rparr> [''20210101000000_a''])
     = Inr ''No pending migrations to apply.''"
proof -
  let ?dr = "\<lparr> hasMigrationsTable = True, history = InSync, drift = NoDrift,
       failedMigrationNames = [], editedMigrationNames = [] \<rparr>"
  have a: "hasMigrationsTable ?dr" and b: "failedMigrationNames ?dr = []"
    and c: "history ?dr = InSync" and d: "drift ?dr = NoDrift" by simp_all
  from in_sync_reports_up_to_date [OF a b c d, of plain_env "[''20210101000000_a'']"]
  show ?thesis by (simp add: status_found_message_def plural_def plain_env_def Number_toString_small)
qed

section \<open>The deploy driver and the diagnosis\<close>

text \<open>
  C7, as the specification states it, fails: the deploy driver has no check of the
  diagnosis. With a failed migration, diverged histories and drift, it still calls
  \<^verbatim>\<open>applyMigrations\<close>, and when that call answers with an empty list it returns the
  report of success.
\<close>

theorem deploy_unguarded_counterexample:
  "MigrateDeploy_parse plain_env (Inr [])
     \<lparr> hasMigrationsTable = True, history = HistoriesDiverge [''20210102000000_b''],
       drift = DriftDetected (Some ''DROP TABLE t;''),
       failedMigrationNames = [''20210101000000_a''], editedMigrationNames = [] \<rparr>
     [''20210101000000_a'', ''20210102000000_b'']
   = ([ConsoleInfo [], ConsoleInfo ''2 migrations found in prisma/migrations'',
       ApplyMigrations, MigrateStop, ConsoleInfo []],
      Inr ''No pending migrations to apply.'')"
  by (simp add: MigrateDeploy_parse_def Let_def deploy_found_message_def plural_def
        deploy_report_def plain_env_def Number_toString_small)

text \<open>
  C7, amended. Whatever the diagnosis, the deploy driver calls \<^verbatim>\<open>applyMigrations\<close> exactly
  once, and its outcome is that of the call: the error the call rejects with, or the
  report on the migrations the call names.
\<close>

theorem deploy_applies_whatever_the_diagnosis:
  "filter (\<lambda>e. e = ApplyMigrations) (fst (MigrateDeploy_parse env applyMigrations dr migs))
     = [ApplyMigrations]
   \<and> snd (MigrateDeploy_parse env applyMigrations dr migs) =
       (case applyMigrations of Inl e \<Rightarrow> Inl e | Inr ids \<Rightarrow> Inr (deploy_report env ids))"
  by (simp add: deploy_result deploy_events split: sum.splits)

lemma Array_join_lines:
  "xs \<noteq> [] \<Longrightarrow> sep @ Array_join sep xs = concat (map (\<lambda>n. sep @ n) xs)"
  by (induction sep xs rule: Array_join.induct) simp_all

lemma edited_warning_text:
  "edited \<noteq> [] \<Longrightarrow>
     edited_warning env edited =
       chalk_yellow env
         ''WARNING The following migrations have been modified since they were applied:''
         @ concat (map (\<lambda>n. ''\<newline>'' @ n) edited)"
  using Array_join_lines [of edited nl] by (simp add: edited_warning_def nl_def)

text \<open>
  C9. When \<open>editedMigrationNames\<close> is not empty, the deploy driver prints the warning
  followed by every one of those identifiers, each on a line of its own, in their
  order, and nothing after them; then it calls \<^verbatim>\<open>applyMigrations\<close>. What it returns is
  what it returns when no migration was edited, and depends on the outcome of that call
  alone, not on the diagnosis.
\<close>

theorem deploy_warns_about_edited_and_applies:
  "editedMigrationNames dr \<noteq> [] \<Longrightarrow>
     fst (MigrateDeploy_parse env applyMigrations dr migs) =
       [ConsoleInfo [], ConsoleInfo (deploy_found_message migs),
        ConsoleInfo
          (chalk_yellow env
             ''WARNING The following migrations have been modified since they were applied:''
             @ concat (map (\<lambda>n. ''\<newline>'' @ n) (editedMigrationNames dr))),
        ApplyMigrations]
        @ (case applyMigrations of Inl e \<Rightarrow> [] | Inr ids \<Rightarrow> [MigrateStop, ConsoleInfo []])
     \<and> snd (MigrateDeploy_parse env applyMigrations dr migs) =
         snd (MigrateDeploy_parse env applyMigrations (dr\<lparr>editedMigrationNames := []\<rparr>) migs)
     \<and> snd (MigrateDeploy_parse env applyMigrations dr migs) =
         (case applyMigrations of Inl e \<Rightarrow> Inl e | Inr ids \<Rightarrow> Inr (deploy_report env ids))"
  by (simp add: deploy_result deploy_events edited_warning_text)

text \<open>
  C9 at a diagnosis with two edited migrations, a failed migration and drift, where
  the call applies one migration.
\<close>

theorem deploy_warns_about_edited_and_applies_witness:
  "MigrateDeploy_parse plain_env (Inr [''20210103000000_c''])
     \<lparr> hasMigrationsTable = True, history = DatabaseIsBehind [''20210103000000_c''],
       drift = DriftDetected None, failedMigrationNames = [''20210102000000_b''],
       editedMigrationNames = [''20210101000000_a'', ''20210102000000_b''] \<rparr>
     [''20210101000000_a'', ''20210102000000_b'']
   = ([ConsoleInfo [], ConsoleInfo ''2 migrations found in prisma/migrations'',
       ConsoleInfo
         ''WARNING The following migrations have been modified since they were applied:\<newline>20210101000000_a\<newline>20210102000000_b'',
       ApplyMigrations, MigrateStop, ConsoleInfo []],
      Inr ''The following migration have been applied:\<newline>\<newline>migrations/20210103000000_c\<newline>      \<newline>All migrations have been successfully applied.'')"
proof -
  let ?dr = "\<lparr> hasMigrationsTable = True, history = DatabaseIsBehind [''20210103000000_c''],
       drift = DriftDetected None, failedMigrationNames = [''20210102000000_b''],
       editedMigrationNames = [''20210101000000_a'', ''20210102000000_b''] \<rparr>"
  have e: "editedMigrationNames ?dr \<noteq> []" by simp
  note w = deploy_warns_about_edited_and_applies
             [OF e, of plain_env "Inr [''20210103000000_c'']"
                "[''20210101000000_a'', ''20210102000000_b'']"]
  have 1: "fst (MigrateDeploy_parse plain_env (Inr [''20210103000000_c'']) ?dr
                  [''20210101000000_a'', ''20210102000000_b''])
     = [ConsoleInfo [], ConsoleInfo ''2 migrations found in prisma/migrations'',
        ConsoleInfo
          ''WARNING The following migrations have been modified since they were applied:\<newline>20210101000000_a\<newline>20210102000000_b'',
        ApplyMigrations, MigrateStop, ConsoleInfo []]"
    using w [THEN conjunct1]
    by (simp add: deploy_found_message_def plural_def plain_env_def Number_toString_small)
  have 2: "snd (MigrateDeploy_parse plain_env (Inr [''20210103000000_c'']) ?dr
                  [''20210101000000_a'', ''20210102000000_b''])
     = Inr ''The following migration have been applied:\<newline>\<newline>migrations/20210103000000_c\<newline>      \<newline>All migrations have been successfully applied.''"
    using w [THEN conjunct2, THEN conjunct2]
    by (simp add: deploy_report_def plural_def plain_env_def nl_def)
  show ?thesis using 1 2 by (simp add: prod_eq_iff)
qed

section \<open>Errors of the status driver\<close>

text \<open>
  C8, as the specification states it, fails: without a migrations table and without
  local migrations the status driver throws \<open>HowToBaselineError\<close>.
\<close>

theorem status_throws_counterexample:
  "snd (MigrateStatus_parse plain_env
          \<lparr> hasMigrationsTable = False, history = InSync, drift = NoDrift,
            failedMigrationNames = [], editedMigrationNames = [] \<rparr> [])
     = Inl HowToBaselineError"
  by (simp add: status_result_no_table)

lemma status_returns_with_table:
  "hasMigrationsTable dr \<Longrightarrow> \<exists>plan. snd (MigrateStatus_parse env dr migs) = Inr plan"
  by (simp add: MigrateStatus_parse_def Let_def)

text \<open>
  C8, amended. The status driver throws \<open>HowToBaselineError\<close> exactly when there is no
  migrations table and no local migration; for every other diagnosis and directory
  listing it returns a text.
\<close>

theorem status_throws_only_when_baseline_impossible:
  "(snd (MigrateStatus_parse env dr migs) = Inl HowToBaselineError
      \<longleftrightarrow> \<not> hasMigrationsTable dr \<and> migs = [])
   \<and> (hasMigrationsTable dr \<or> migs \<noteq> []
      \<longrightarrow> (\<exists>plan. snd (MigrateStatus_parse env dr migs) = Inr plan))"
proof (cases "hasMigrationsTable dr")
  case True
  from status_returns_with_table [OF True, of env migs] show ?thesis
    using True by auto
next
  case False
  then show ?thesis by (simp add: status_result_no_table)
qed

theorem status_throws_only_when_baseline_impossible_witness:
  "(\<exists>plan. snd (MigrateStatus_parse plain_env
          \<lparr> hasMigrationsTable = False, history = InSync, drift = NoDrift,
            failedMigrationNames = [], editedMigrationNames = [] \<rparr>
          [''20201231000000_x'']) = Inr plan)
   \<and> (\<exists>plan. snd (MigrateStatus_parse plain_env clean_diagnosis []) = Inr plan)"
proof -
  let ?dr = "\<lparr> hasMigrationsTable = False, history = InSync, drift = NoDrift,
            failedMigrationNames = [], editedMigrationNames = [] \<rparr>"
  have a: "hasMigrationsTable ?dr \<or> [''20201231000000_x''] \<noteq> []" by simp
  have b: "hasMigrationsTable clean_diagnosis \<or> ([]::string list) \<noteq> []"
    by (simp add: clean_diagnosis_def)
  from status_throws_only_when_baseline_impossible
         [where env = plain_env and dr = ?dr and migs = "[''20201231000000_x'']"] a
       status_throws_only_when_baseline_impossible
         [where env = plain_env and dr = clean_diagnosis and migs = "[]"] b
  show ?thesis by blast
qed

section \<open>The notice of unapplied migrations\<close>



end
